theory Spec2Isabelle
  imports Complex_Main
begin

section \<open>Python values used by the backend\<close>

text \<open>
  Python floats (cpu and memory percentages, scores, confidences) are modelled as
  real numbers: the code only compares them with constants, divides two small
  integers and rounds the quotient to two decimals, so every property below is
  stated on bounds that the floating-point result satisfies as well (NaN and
  infinities are not in the model). Strings are byte strings; \<open>str.lower\<close> is
  modelled on ASCII letters.
\<close>

datatype py_error = KeyError | ZeroDivisionError | IndexError

definition lower_char :: "char \<Rightarrow> char" where
  "lower_char c =
     (case map_of (zip ''ABCDEFGHIJKLMNOPQRSTUVWXYZ'' ''abcdefghijklmnopqrstuvwxyz'') c of
        None \<Rightarrow> c
      | Some l \<Rightarrow> l)"

definition lower :: "string \<Rightarrow> string" where
  "lower s = map lower_char s"

fun startswith :: "string \<Rightarrow> string \<Rightarrow> bool" where
  "startswith s [] = True"
| "startswith [] (k # ks) = False"
| "startswith (c # cs) (k # ks) = (c = k \<and> startswith cs ks)"

text \<open>\<open>str_in k s\<close> is Python's \<open>k in s\<close> on strings: \<open>k\<close> occurs in \<open>s\<close> as a
  contiguous substring.\<close>

fun str_in :: "string \<Rightarrow> string \<Rightarrow> bool" where
  "str_in k [] = (k = [])"
| "str_in k (c # cs) = (startswith (c # cs) k \<or> str_in k cs)"

subsection \<open>Dictionaries in insertion order\<close>

text \<open>
  A Python \<open>dict\<close> iterates in insertion order, and both the arg-max of the
  classifier and \<open>search_by_tag\<close> depend on that order, so a dictionary is an
  association list with distinct keys: assigning to a present key keeps its
  position, assigning to a new key appends it, \<open>del\<close> removes the key.
\<close>

fun dict_lookup :: "('k \<times> 'v) list \<Rightarrow> 'k \<Rightarrow> 'v option" where
  "dict_lookup [] k = None"
| "dict_lookup ((k', v) # d) k = (if k' = k then Some v else dict_lookup d k)"

definition dict_get :: "('k \<times> 'v) list \<Rightarrow> 'k \<Rightarrow> 'v \<Rightarrow> 'v" where
  "dict_get d k dflt = (case dict_lookup d k of None \<Rightarrow> dflt | Some v \<Rightarrow> v)"

fun dict_set :: "('k \<times> 'v) list \<Rightarrow> 'k \<Rightarrow> 'v \<Rightarrow> ('k \<times> 'v) list" where
  "dict_set [] k v = [(k, v)]"
| "dict_set ((k', v') # d) k v =
     (if k' = k then (k, v) # d else (k', v') # dict_set d k v)"

definition dict_del :: "('k \<times> 'v) list \<Rightarrow> 'k \<Rightarrow> ('k \<times> 'v) list" where
  "dict_del d k = filter (\<lambda>(k', v). k' \<noteq> k) d"

definition keys :: "('k \<times> 'v) list \<Rightarrow> 'k list" where
  "keys d = map fst d"


section \<open>The categorizer (process_classifier.py)\<close>

text \<open>
  A custom rule is a JSON object read from the configuration file or built by
  \<open>add_custom_rule\<close>. Every field may be missing. \<open>keywords\<close> may also hold a
  value that cannot be iterated (\<open>null\<close>, a number), which makes \<open>_match_rule\<close>
  raise inside its \<open>try\<close> block.
\<close>

datatype kw_field = KwMissing | KwList "string list" | KwNotIterable

record custom_rule =
  rule_category :: "string option"
  rule_keywords :: kw_field
  cpu_threshold :: "real option"
  memory_threshold :: "real option"
  weight :: "int option"

record classifier =
  process_categories :: "(string \<times> string list) list"
  performance_tags :: "(string \<times> (real \<Rightarrow> real \<Rightarrow> bool)) list"
  custom_rules :: "custom_rule list"

record classification =
  category :: string
  tags :: "string list"
  confidence :: real
  cpu_usage :: real
  memory_usage :: real
  process_name :: string

text \<open>The state built by \<open>__init__\<close> when no configuration file is given.\<close>

definition default_categories :: "(string \<times> string list) list" where
  "default_categories =
     [(''system_critical'', [''systemd'', ''init'', ''kthreadd'', ''udevd'', ''dbus'']),
      (''network_services'', [''sshd'', ''nginx'', ''apache'', ''postgres'', ''mysql'', ''redis'']),
      (''user_applications'',
         [''chrome'', ''firefox'', ''code'', ''pycharm'', ''sublime'', ''thunderbird'']),
      (''background_workers'', [''cron'', ''atd'', ''worker'', ''celery'', ''supervisord'']),
      (''development_tools'', [''python'', ''java'', ''node'', ''golang'', ''docker'']),
      (''security_services'', [''fail2ban'', ''firewalld'', ''auditd'', ''clamav''])]"

definition default_performance_tags :: "(string \<times> (real \<Rightarrow> real \<Rightarrow> bool)) list" where
  "default_performance_tags =
     [(''cpu_intensive'', \<lambda>cpu mem. cpu > 70),
      (''memory_intensive'', \<lambda>cpu mem. mem > 30),
      (''low_resource'', \<lambda>cpu mem. cpu < 5 \<and> mem < 5),
      (''stable_process'', \<lambda>cpu mem. 5 \<le> cpu \<and> cpu \<le> 30 \<and> 5 \<le> mem \<and> mem \<le> 20),
      (''high_io'', \<lambda>cpu mem. False)]"

definition default_classifier :: classifier where
  "default_classifier =
     \<lparr>process_categories = default_categories,
      performance_tags = default_performance_tags,
      custom_rules = []\<rparr>"


text \<open>\<open>category_scores[c] = category_scores.get(c, 0) + w\<close>\<close>

definition bump :: "(string \<times> int) list \<Rightarrow> string \<Rightarrow> int \<Rightarrow> (string \<times> int) list" where
  "bump sc c w = dict_set sc c (dict_get sc c 0 + w)"

text \<open>Step 1: one point per keyword of a category that occurs in the name.\<close>

definition keyword_scores ::
  "string \<Rightarrow> string \<Rightarrow> string list \<Rightarrow> (string \<times> int) list \<Rightarrow> (string \<times> int) list" where
  "keyword_scores pname c kws sc =
     fold (\<lambda>keyword sc. if str_in (lower keyword) (lower pname) then bump sc c 1 else sc)
       kws sc"

definition name_scores ::
  "(string \<times> string list) list \<Rightarrow> string \<Rightarrow> (string \<times> int) list \<Rightarrow> (string \<times> int) list" where
  "name_scores cats pname sc = fold (\<lambda>(c, kws) sc. keyword_scores pname c kws sc) cats sc"

text \<open>Step 2: the four exclusive resource branches.\<close>

definition resource_scores ::
  "real \<Rightarrow> real \<Rightarrow> (string \<times> int) list \<Rightarrow> (string \<times> int) list \<times> string list" where
  "resource_scores cpu mem sc =
     (if cpu < 1 \<and> mem < 1 then (bump sc ''idle_process'' 2, [''low_resource''])
      else if cpu > 50 then (bump sc ''cpu_intensive'' 2, [''cpu_intensive''])
      else if mem > 30 then (sc, [''memory_intensive''])
      else if 5 \<le> cpu \<and> cpu \<le> 30 \<and> 5 \<le> mem \<and> mem \<le> 20 then (sc, [''stable_process''])
      else (sc, []))"

text \<open>
  \<open>_match_rule\<close>: the result and the lines it prints. The only exception of the
  model is the iteration over a \<open>keywords\<close> value that is not a list; the
  \<open>except\<close> branch prints the rule and answers \<open>False\<close>. A missing \<open>keywords\<close>
  field reads as the empty list and prints nothing.
\<close>

datatype warning = MatchRuleError custom_rule

definition any_keyword :: "string list \<Rightarrow> string \<Rightarrow> bool" where
  "any_keyword kws pname = list_ex (\<lambda>keyword. str_in (lower keyword) (lower pname)) kws"

definition match_rule :: "custom_rule \<Rightarrow> string \<Rightarrow> real \<Rightarrow> real \<Rightarrow> bool \<times> warning list" where
  "match_rule rule pname cpu mem =
     (case rule_keywords rule of
        KwNotIterable \<Rightarrow> (False, [MatchRuleError rule])
      | kf \<Rightarrow>
          (let keyword_match = any_keyword (case kf of KwList kws \<Rightarrow> kws | _ \<Rightarrow> []) pname;
               cpu_match = (case cpu_threshold rule of None \<Rightarrow> True | Some t \<Rightarrow> cpu > t);
               memory_match = (case memory_threshold rule of None \<Rightarrow> True | Some t \<Rightarrow> mem > t)
           in (keyword_match \<and> cpu_match \<and> memory_match, [])))"

text \<open>
  Step 3: the loop over the custom rules. \<open>rule['category']\<close> is read outside
  \<open>_match_rule\<close>, with no \<open>try\<close> around it: on a rule without that field the
  \<open>KeyError\<close> leaves \<open>classify_process\<close>.
\<close>

fun apply_custom_rules ::
  "custom_rule list \<Rightarrow> string \<Rightarrow> real \<Rightarrow> real \<Rightarrow> (string \<times> int) list
     \<Rightarrow> warning list \<times> (py_error + (string \<times> int) list)" where
  "apply_custom_rules [] pname cpu mem sc = ([], Inr sc)"
| "apply_custom_rules (rule # rules) pname cpu mem sc =
     (let (matched, out) = match_rule rule pname cpu mem
      in if matched then
           (case rule_category rule of
              None \<Rightarrow> (out, Inl KeyError)
            | Some c \<Rightarrow>
                (let w = (case weight rule of None \<Rightarrow> 1 | Some w \<Rightarrow> w);
                     (out', res) = apply_custom_rules rules pname cpu mem (bump sc c w)
                 in (out @ out', res)))
         else
           (let (out', res) = apply_custom_rules rules pname cpu mem sc
            in (out @ out', res)))"

text \<open>
  Step 4: \<open>max(category_scores, key=category_scores.get)\<close> answers the first key,
  in iteration order, whose score is maximal.
\<close>

fun argmax_from :: "string \<Rightarrow> int \<Rightarrow> (string \<times> int) list \<Rightarrow> string" where
  "argmax_from k v [] = k"
| "argmax_from k v ((k', v') # d) = (if v' > v then argmax_from k' v' d else argmax_from k v d)"

definition round_half_even :: "real \<Rightarrow> int" where
  "round_half_even x =
     (let f = \<lfloor>x\<rfloor>; d = x - of_int f
      in if d < 1 / 2 then f else if d > 1 / 2 then f + 1
         else if even f then f else f + 1)"

text \<open>\<open>round(x, 2)\<close>\<close>

definition round2 :: "real \<Rightarrow> real" where
  "round2 x = of_int (round_half_even (x * 100)) / 100"

definition final_category :: "(string \<times> int) list \<Rightarrow> py_error + (string \<times> real)" where
  "final_category sc =
     (case sc of
        [] \<Rightarrow> Inr (''unknown'', 0)
      | (k, v) # d \<Rightarrow>
          (let fc = argmax_from k v d; total = sum_list (map snd sc)
           in if total = 0 then Inl ZeroDivisionError
              else Inr (fc, of_int (dict_get sc fc 0) / of_int total)))"

text \<open>Step 5: the performance tags, in the order of their table.\<close>

definition add_performance_tags ::
  "(string \<times> (real \<Rightarrow> real \<Rightarrow> bool)) list \<Rightarrow> real \<Rightarrow> real \<Rightarrow> string list \<Rightarrow> string list" where
  "add_performance_tags ptags cpu mem suggested =
     fold (\<lambda>(tag_name, condition_func) ts.
             if condition_func cpu mem \<and> tag_name \<notin> set ts then ts @ [tag_name] else ts)
       ptags suggested"


definition classify_process ::
  "classifier \<Rightarrow> string \<Rightarrow> real \<Rightarrow> real \<Rightarrow> warning list \<times> (py_error + classification)" where
  "classify_process cl pname cpu mem =
     (let sc1 = name_scores (process_categories cl) pname [];
          (sc2, suggested) = resource_scores cpu mem sc1;
          (out, res) = apply_custom_rules (custom_rules cl) pname cpu mem sc2
      in case res of
           Inl e \<Rightarrow> (out, Inl e)
         | Inr sc3 \<Rightarrow>
             (case final_category sc3 of
                Inl e \<Rightarrow> (out, Inl e)
              | Inr (fc, conf) \<Rightarrow>
                  (out, Inr \<lparr>category = fc,
                             tags = add_performance_tags (performance_tags cl) cpu mem suggested,
                             confidence = round2 conf,
                             cpu_usage = cpu, memory_usage = mem, process_name = pname\<rparr>)))"


text \<open>
  \<open>batch_classify\<close> copies the sample's \<open>pid\<close> into the result: an integer, the
  string \<open>'N/A'\<close> when the sample has none, and \<open>result.get('pid')\<close> reads
  \<open>None\<close> from a result without the key.
\<close>

datatype pid_value = PidInt int | PidStr string | PidNone

record sample =
  sample_pid :: "pid_value"
  sample_name :: "string option"
  sample_cpu :: "real option"
  sample_memory :: "real option"

record classified = classification +
  result_pid :: pid_value

definition with_pid :: "classification \<Rightarrow> pid_value \<Rightarrow> classified" where
  "with_pid r p = classification.extend r \<lparr>result_pid = p\<rparr>"

fun batch_classify :: "classifier \<Rightarrow> sample list \<Rightarrow> py_error + classified list" where
  "batch_classify cl [] = Inr []"
| "batch_classify cl (process # process_list) =
     (case snd (classify_process cl
                  (case sample_name process of None \<Rightarrow> [] | Some n \<Rightarrow> n)
                  (case sample_cpu process of None \<Rightarrow> 0 | Some c \<Rightarrow> c)
                  (case sample_memory process of None \<Rightarrow> 0 | Some m \<Rightarrow> m)) of
        Inl e \<Rightarrow> Inl e
      | Inr result \<Rightarrow>
          (case batch_classify cl process_list of
             Inl e \<Rightarrow> Inl e
           | Inr results \<Rightarrow>
               Inr (with_pid result
                      (case sample_pid process of PidNone \<Rightarrow> PidStr ''N/A'' | p \<Rightarrow> p)
                    # results)))"

subsection \<open>The tables on which the confidence invariant holds\<close>





section \<open>The anomaly scorers\<close>

text \<open>
  A process as \<open>collect_processes\<close> builds it. The isolation forest is outside
  the repository: its answers are functions of the feature matrix, and every
  call is recorded so that a path without a model call can be told apart.
\<close>

record process =
  pid :: int
  name :: string
  cpu :: real
  memory :: real
  threads :: int
  nice :: int
  features :: "real list"

record isolation_forest =
  fit_predict :: "real list list \<Rightarrow> int list"
  predict :: "real list list \<Rightarrow> int list"
  decision_function :: "real list list \<Rightarrow> real list"

datatype model_call =
  FitPredict "real list list" | Predict "real list list" | DecisionFunction "real list list"

subsection \<open>analyzer.py: the simplified detector\<close>





subsection \<open>detector.py: the model with random injection\<close>

text \<open>
  The sentences of \<open>explain\<close>, in the order of the source: the CPU comment
  (above 80, above 20, otherwise), the memory comment (above 5, otherwise), the
  thread comment (above 50, otherwise), and the three attributions (flagged by
  the model, flagged by the random draw, normal behaviour).
\<close>

datatype reason =
  CpuHigh | CpuElevated | CpuNormal
| MemoryHigh | MemoryNormal
| ThreadsHigh | ThreadsNormal
| ModelAnomaly | RandomRisk | NormalBehaviour

definition explain :: "process \<Rightarrow> bool \<Rightarrow> string \<Rightarrow> reason list" where
  "explain p is_anomaly source =
     [if cpu p > 80 then CpuHigh else if cpu p > 20 then CpuElevated else CpuNormal]
     @ [if memory p > 5 then MemoryHigh else MemoryNormal]
     @ [if threads p > 50 then ThreadsHigh else ThreadsNormal]
     @ (if is_anomaly then
          (if source = ''model'' then [ModelAnomaly]
           else if source = ''random'' then [RandomRisk]
           else [])
        else [NormalBehaviour])"

record detected =
  d_pid :: int
  d_name :: string
  d_cpu :: real
  d_memory :: real
  d_threads :: int
  d_nice :: int
  d_anomaly :: bool
  d_score :: real
  reasons :: "reason list"

definition anomaly_source :: "bool \<Rightarrow> bool \<Rightarrow> string" where
  "anomaly_source model_anomaly random_anomaly =
     (if model_anomaly then ''model'' else if random_anomaly then ''random'' else ''normal'')"

text \<open>One turn of the loop of \<open>AnomalyDetector.detect\<close>; \<open>draw\<close> is the value
  \<open>random.random()\<close> returns in that turn.\<close>

definition detect_one :: "real \<Rightarrow> int \<Rightarrow> real \<Rightarrow> real \<Rightarrow> process \<Rightarrow> detected" where
  "detect_one random_rate pred sc draw p =
     (let model_anomaly = (pred = - 1);
          random_anomaly = (draw < random_rate);
          is_anomaly = (model_anomaly \<or> random_anomaly);
          source = anomaly_source model_anomaly random_anomaly
      in \<lparr>d_pid = pid p, d_name = name p, d_cpu = cpu p, d_memory = memory p,
          d_threads = threads p, d_nice = nice p, d_anomaly = is_anomaly, d_score = sc,
          reasons = explain p is_anomaly source\<rparr>)"

definition anomaly_detect ::
  "isolation_forest \<Rightarrow> real \<Rightarrow> (nat \<Rightarrow> real) \<Rightarrow> process list
     \<Rightarrow> model_call list \<times> (py_error + detected list)" where
  "anomaly_detect model random_rate draws processes =
     (let X = map features processes;
          preds = predict model X;
          scores = decision_function model X;
          calls = [Predict X, DecisionFunction X]
      in if length preds < length processes \<or> length scores < length processes
         then (calls, Inl IndexError)
         else (calls,
               Inr (map (\<lambda>(i, p). detect_one random_rate (preds ! i) (scores ! i) (draws i) p)
                      (enumerate 0 processes))))"


section \<open>The label store (label_manager.py)\<close>

text \<open>
  A record of \<open>labels_db\<close> (\<open>label_tags\<close> and \<open>label_notes\<close> are its keys
  \<open>tags\<close> and \<open>notes\<close>). The tags are a Python \<open>set\<close>; timestamps are the
  strings \<open>isoformat()\<close> returns and are passed in by the caller of each
  operation.
\<close>

record label_info =
  label_tags :: "string set"
  label_notes :: string
  last_updated :: string

record saved_info =
  saved_tags :: "string list"
  saved_notes :: string
  saved_last_updated :: string

record tag_definition =
  tag_color :: string
  tag_description :: string

record saved_file =
  saved_labels :: "(string \<times> saved_info) list"
  saved_tag_definitions :: "(string \<times> tag_definition) list"
  last_saved :: string

text \<open>The storage file: absent, unreadable as the JSON document \<open>load_labels\<close>
  expects, or a document written by \<open>save_labels\<close>.\<close>

datatype file_content = NoFile | Corrupt | Saved saved_file

record label_manager =
  labels_db :: "(int \<times> label_info) list"
  tag_definitions :: "(string \<times> tag_definition) list"
  storage_file :: file_content

subsection \<open>\<open>str(pid)\<close> and \<open>int(pid_str)\<close>\<close>

definition digit_char :: "nat \<Rightarrow> char" where
  "digit_char d = ''0123456789'' ! (d mod 10)"


fun str_nat :: "nat \<Rightarrow> string" where
  "str_nat n = (if n < 10 then [digit_char n] else str_nat (n div 10) @ [digit_char (n mod 10)])"

declare str_nat.simps [simp del]

definition str_int :: "int \<Rightarrow> string" where
  "str_int i = (if i < 0 then CHR ''-'' # str_nat (nat (- i)) else str_nat (nat i))"



subsection \<open>Persistence\<close>

text \<open>
  \<open>list(info['tags'])\<close> lists a set in an order that Python does not specify:
  \<open>to_list\<close> is that enumeration, a parameter of every operation that lists a
  set.
\<close>

definition save_data ::
  "(string set \<Rightarrow> string list) \<Rightarrow> (int \<times> label_info) list \<Rightarrow> (string \<times> saved_info) list" where
  "save_data to_list db =
     fold (\<lambda>(p, info) sd.
             dict_set sd (str_int p)
               \<lparr>saved_tags = to_list (label_tags info), saved_notes = label_notes info,
                saved_last_updated = last_updated info\<rparr>)
       db []"

definition save_labels ::
  "(string set \<Rightarrow> string list) \<Rightarrow> string \<Rightarrow> label_manager \<Rightarrow> label_manager" where
  "save_labels to_list now lm =
     lm\<lparr>storage_file :=
          Saved \<lparr>saved_labels = save_data to_list (labels_db lm),
                 saved_tag_definitions = tag_definitions lm,
                 last_saved = now\<rparr>\<rparr>"




subsection \<open>Operations\<close>

text \<open>
  \<open>add_label\<close>: \<open>note\<close> replaces the stored note only when it is given and not
  empty. The warning printed for a tag outside \<open>tag_definitions\<close> changes
  nothing and is left out. \<open>now\<close> is the time of the update, \<open>saved_at\<close> the
  time of the write.
\<close>

definition add_label ::
  "(string set \<Rightarrow> string list) \<Rightarrow> string \<Rightarrow> string \<Rightarrow> label_manager \<Rightarrow> int \<Rightarrow> string
     \<Rightarrow> string option \<Rightarrow> label_manager \<times> bool" where
  "add_label to_list now saved_at lm p label note =
     (let info = (case dict_lookup (labels_db lm) p of
                    None \<Rightarrow> \<lparr>label_tags = {}, label_notes = [], last_updated = now\<rparr>
                  | Some i \<Rightarrow> i);
          info1 = info\<lparr>label_tags := insert label (label_tags info)\<rparr>;
          info2 = (case note of
                     None \<Rightarrow> info1
                   | Some n \<Rightarrow> if n = [] then info1 else info1\<lparr>label_notes := n\<rparr>);
          info3 = info2\<lparr>last_updated := now\<rparr>
      in (save_labels to_list saved_at (lm\<lparr>labels_db := dict_set (labels_db lm) p info3\<rparr>),
          True))"

definition remove_label ::
  "(string set \<Rightarrow> string list) \<Rightarrow> string \<Rightarrow> string \<Rightarrow> label_manager \<Rightarrow> int \<Rightarrow> string
     \<Rightarrow> label_manager \<times> bool" where
  "remove_label to_list now saved_at lm p label =
     (case dict_lookup (labels_db lm) p of
        None \<Rightarrow> (lm, False)
      | Some info \<Rightarrow>
          if label \<in> label_tags info then
            (let info1 = info\<lparr>label_tags := label_tags info - {label}, last_updated := now\<rparr>;
                 db = (if label_tags info1 = {} then dict_del (labels_db lm) p
                       else dict_set (labels_db lm) p info1)
             in (save_labels to_list saved_at (lm\<lparr>labels_db := db\<rparr>), True))
          else (lm, False))"

definition get_process_labels :: "label_manager \<Rightarrow> int \<Rightarrow> string set" where
  "get_process_labels lm p =
     (case dict_lookup (labels_db lm) p of None \<Rightarrow> {} | Some info \<Rightarrow> label_tags info)"

definition search_by_tag :: "label_manager \<Rightarrow> string \<Rightarrow> int list" where
  "search_by_tag lm tag = map fst (filter (\<lambda>(p, info). tag \<in> label_tags info) (labels_db lm))"

definition add_tag_definition ::
  "label_manager \<Rightarrow> string \<Rightarrow> string \<Rightarrow> string \<Rightarrow> label_manager" where
  "add_tag_definition lm tag col descr =
     lm\<lparr>tag_definitions :=
          dict_set (tag_definitions lm) tag \<lparr>tag_color = col, tag_description = descr\<rparr>\<rparr>"

text \<open>
  \<open>merge_with_classification\<close>. \<open>if pid:\<close> tests the truth value of the pid: a
  non-zero integer or a non-empty string. The store is keyed by integers, so a
  string finds no record. \<open>len(labels) > 0\<close> on a set says that it is not empty.
\<close>

fun truthy :: "pid_value \<Rightarrow> bool" where
  "truthy (PidInt i) = (i \<noteq> 0)"
| "truthy (PidStr s) = (s \<noteq> [])"
| "truthy PidNone = False"

fun labels_of_pid :: "label_manager \<Rightarrow> pid_value \<Rightarrow> string set" where
  "labels_of_pid lm (PidInt i) = get_process_labels lm i"
| "labels_of_pid lm (PidStr s) = {}"
| "labels_of_pid lm PidNone = {}"

record merged = classified +
  manual_labels :: "string list"
  has_manual_labels :: bool

definition merge_one ::
  "(string set \<Rightarrow> string list) \<Rightarrow> label_manager \<Rightarrow> classified \<Rightarrow> merged" where
  "merge_one to_list lm result =
     (if truthy (result_pid result) then
        (let labels = labels_of_pid lm (result_pid result)
         in classified.extend result
              \<lparr>manual_labels = to_list labels,
               has_manual_labels = (labels \<noteq> {})\<rparr>)
      else classified.extend result \<lparr>manual_labels = [], has_manual_labels = False\<rparr>)"

definition merge_with_classification ::
  "(string set \<Rightarrow> string list) \<Rightarrow> label_manager \<Rightarrow> classified list \<Rightarrow> merged list" where
  "merge_with_classification to_list lm classification_results =
     map (merge_one to_list lm) classification_results"

definition store_inv :: "label_manager \<Rightarrow> bool" where
  "store_inv lm = (\<forall>(p, info) \<in> set (labels_db lm). label_tags info \<noteq> {})"


section \<open>The aggregator (api_server.py)\<close>

text \<open>
  The dictionary \<open>get_visual_hint\<close> and \<open>calculate_priority\<close> read. Both use
  \<open>.get\<close> with a default, so every key may be missing.
\<close>

record process_info =
  info_category :: "string option"
  info_cpu_usage :: "real option"
  info_memory_usage :: "real option"
  user_labels :: "string list option"

text \<open>The result of the classifier with the labels \<open>classify_and_tag_processes\<close>
  attaches to it.\<close>

definition process_info_of :: "classification \<Rightarrow> string list \<Rightarrow> process_info" where
  "process_info_of r labels =
     \<lparr>info_category = Some (category r), info_cpu_usage = Some (cpu_usage r),
      info_memory_usage = Some (memory_usage r), user_labels = Some labels\<rparr>"

definition color_map :: "(string \<times> string) list" where
  "color_map =
     [(''system_critical'', ''red''),
      (''network_services'', ''blue''),
      (''user_applications'', ''green''),
      (''development_tools'', ''cyan''),
      (''security_services'', ''orange''),
      (''cpu_intensive'', ''orange''),
      (''memory_intensive'', ''purple'')]"

text \<open>The glyphs of \<open>get_category_icon\<close>, by name.\<close>

datatype icon =
  RedCircle | Globe | Laptop | Gear | Wrench | Lock | Fire | FloppyDisk | Sleeping | QuestionMark

definition get_category_icon :: "string \<Rightarrow> icon" where
  "get_category_icon c =
     dict_get
       [(''system_critical'', RedCircle),
        (''network_services'', Globe),
        (''user_applications'', Laptop),
        (''background_workers'', Gear),
        (''development_tools'', Wrench),
        (''security_services'', Lock),
        (''cpu_intensive'', Fire),
        (''memory_intensive'', FloppyDisk),
        (''idle_process'', Sleeping),
        (''unknown'', QuestionMark)]
       c QuestionMark"

definition calculate_priority :: "process_info \<Rightarrow> int" where
  "calculate_priority process_info =
     (let priority0 = 5;
          labels = (case user_labels process_info of None \<Rightarrow> [] | Some ls \<Rightarrow> ls);
          priority1 = (if ''high_priority'' \<in> set labels then 9
                       else if ''business_critical'' \<in> set labels then 8
                       else priority0);
          c = (case info_category process_info of None \<Rightarrow> [] | Some c \<Rightarrow> c);
          priority2 = (if c = ''system_critical'' then max priority1 9 else priority1);
          cpu_val = (case info_cpu_usage process_info of None \<Rightarrow> 0 | Some x \<Rightarrow> x);
          priority3 = (if cpu_val > 80 then max priority2 8 else priority2)
      in min priority3 10)"

record visual_hint =
  color :: string
  hint_icon :: icon
  priority :: int

definition get_visual_hint :: "process_info \<Rightarrow> visual_hint" where
  "get_visual_hint process_info =
     (let c = (case info_category process_info of None \<Rightarrow> ''unknown'' | Some c \<Rightarrow> c);
          cpu_val = (case info_cpu_usage process_info of None \<Rightarrow> 0 | Some x \<Rightarrow> x);
          mem_val = (case info_memory_usage process_info of None \<Rightarrow> 0 | Some x \<Rightarrow> x);
          labels = (case user_labels process_info of None \<Rightarrow> [] | Some ls \<Rightarrow> ls);
          color1 = (if ''high_priority'' \<in> set labels then ''darkred''
                    else if ''monitor_closely'' \<in> set labels then ''orange''
                    else dict_get color_map c ''gray'');
          color2 = (if cpu_val > 70 \<and> color1 = ''gray'' then ''orange'' else color1);
          color3 = (if mem_val > 50 \<and> color2 = ''gray'' then ''purple'' else color2)
      in \<lparr>color = color3, hint_icon = get_category_icon c,
          priority = calculate_priority process_info\<rparr>)"


section \<open>Auxiliary definitions and sample data\<close>

text \<open>The labels \<open>calculate_priority\<close> reads: \<open>process_info.get('user_labels', [])\<close>.\<close>

definition labels_list :: "process_info \<Rightarrow> string list" where
  "labels_list info = (case user_labels info of None \<Rightarrow> [] | Some ls \<Rightarrow> ls)"


text \<open>Sample inputs on which the theorems below are instantiated.\<close>

definition busy_process :: process where
  "busy_process =
     \<lparr>pid = 4242, name = ''stress'', cpu = 99, memory = 80, threads = 400, nice = - 20,
      features = [99, 80, 400, - 20]\<rparr>"

definition quiet_process :: process where
  "quiet_process =
     \<lparr>pid = 17, name = ''sshd'', cpu = 2, memory = 1, threads = 4, nice = 0,
      features = [2, 1, 4, 0]\<rparr>"


definition first_only :: isolation_forest where
  "first_only =
     \<lparr>fit_predict = (\<lambda>X. [- 1, 1, 1]), predict = (\<lambda>X. [- 1, 1, 1]),
      decision_function = (\<lambda>X. [- 1 / 5, 1 / 10, 1 / 10])\<rparr>"

definition second_draw_low :: "nat \<Rightarrow> real" where
  "second_draw_low i = (if i = 1 then 1 / 100 else 1 / 2)"

definition catalog_order :: "string set \<Rightarrow> string list" where
  "catalog_order s =
     filter (\<lambda>t. t \<in> s)
       [''high_priority'', ''monitor_closely'', ''auto_restart'', ''ignore_alert'',
        ''business_critical'', ''experimental'']"

definition example_store :: label_manager where
  "example_store =
     \<lparr>labels_db =
        [(0, \<lparr>label_tags = {''high_priority''}, label_notes = ''swapper'',
              last_updated = ''2024-05-01T10:00:00''\<rparr>),
         (4242, \<lparr>label_tags = {''monitor_closely'', ''experimental''}, label_notes = [],
                 last_updated = ''2024-05-01T10:00:05''\<rparr>)],
      tag_definitions = [],
      storage_file = NoFile\<rparr>"

definition pid0_result :: classified where
  "pid0_result =
     with_pid \<lparr>category = ''unknown'', tags = [''low_resource''], confidence = 0,
               cpu_usage = 0, memory_usage = 0, process_name = ''swapper''\<rparr> (PidInt 0)"

definition tagged_info :: process_info where
  "tagged_info =
     \<lparr>info_category = Some ''network_services'', info_cpu_usage = Some 2,
      info_memory_usage = Some 1, user_labels = Some [''business_critical'']\<rparr>"

section \<open>Properties of the dictionaries\<close>

lemma dict_lookup_None_iff: "dict_lookup d k = None \<longleftrightarrow> k \<notin> fst ` set d"
  by (induction d) (auto split: if_splits)





lemma set_dict_set: "set (dict_set d k v) \<subseteq> insert (k, v) (set d)"
  by (induction d) (auto split: if_splits)























section \<open>The confidence of a classification\<close>





section \<open>The sshd example\<close>

text \<open>
  C2, as amended. For the process \<open>sshd\<close> with cpu 2 and memory 1, classified
  by the default classifier with no manual labels, the category is
  \<open>network_services\<close> with confidence 1, none of the four resource branches of
  step 2 fires, and the suggested tags are exactly \<open>low_resource\<close>, which the
  performance-tag table of step 5 adds since cpu and memory are both below 5;
  the visual hint has colour \<open>blue\<close> and priority 5.
\<close>

theorem sshd_example:
  "classify_process default_classifier ''sshd'' 2 1
     = ([], Inr \<lparr>category = ''network_services'', tags = [''low_resource''], confidence = 1,
                 cpu_usage = 2, memory_usage = 1, process_name = ''sshd''\<rparr>)
   \<and> snd (resource_scores 2 1 (name_scores default_categories ''sshd'' [])) = []
   \<and> add_performance_tags default_performance_tags 2 1 [] = [''low_resource'']
   \<and> get_visual_hint
         (process_info_of
            \<lparr>category = ''network_services'', tags = [''low_resource''], confidence = 1,
             cpu_usage = 2, memory_usage = 1, process_name = ''sshd''\<rparr> [])
       = \<lparr>color = ''blue'', hint_icon = Globe, priority = 5\<rparr>"
  by code_simp

text \<open>
  C2 as stated fails on the tags: the suggested tags of that sample hold
  \<open>low_resource\<close>, one of the four resource tags the claim excludes.
\<close>

theorem sshd_tags_counterexample:
  "map_sum id tags (snd (classify_process default_classifier ''sshd'' 2 1))
     = Inr [''low_resource'']"
  by code_simp

section \<open>Malformed custom rules\<close>

text \<open>
  C5, evaluated at the input on which it fails. A rule without \<open>category\<close>
  whose keywords match the name is not skipped: \<open>_match_rule\<close> answers
  \<open>True\<close>, nothing is printed, and the read of \<open>rule['category']\<close> ends
  \<open>classify_process\<close> with a \<open>KeyError\<close>.
\<close>

theorem classify_rule_without_category:
  "classify_process
     (default_classifier
        \<lparr>custom_rules :=
           [\<lparr>rule_category = None, rule_keywords = KwList [''ssh''], cpu_threshold = None,
             memory_threshold = None, weight = None\<rparr>]\<rparr>)
     ''sshd'' 2 1
   = ([], Inl KeyError)"
  by code_simp

section \<open>The anomaly scorers\<close>



text \<open>
  C4. Whenever the model answers for every process of the batch, the detector
  of detector.py returns one result per process, and for each of them: the
  source is one of \<open>model\<close>, \<open>random\<close> and \<open>normal\<close>; the source \<open>model\<close>
  implies an anomaly; the source is \<open>normal\<close> exactly when there is no
  anomaly; and the reasons are a CPU comment, a memory comment, a thread
  comment and the one attribution that belongs to the source, in that order.
\<close>

theorem detect_source_and_reasons:
  assumes "length processes \<le> length (predict model (map features processes))"
    and "length processes \<le> length (decision_function model (map features processes))"
  shows "\<exists>rs. snd (anomaly_detect model random_rate draws processes) = Inr rs
           \<and> length rs = length processes
           \<and> (\<forall>i < length processes.
                 let source = anomaly_source
                                (predict model (map features processes) ! i = - 1)
                                (draws i < random_rate);
                     r = rs ! i
                 in source \<in> {''model'', ''random'', ''normal''}
                  \<and> (source = ''model'' \<longrightarrow> d_anomaly r)
                  \<and> (source = ''normal'' \<longleftrightarrow> \<not> d_anomaly r)
                  \<and> reasons r \<noteq> []
                  \<and> (\<exists>c m t a. reasons r = [c, m, t, a]
                        \<and> c \<in> {CpuHigh, CpuElevated, CpuNormal}
                        \<and> m \<in> {MemoryHigh, MemoryNormal}
                        \<and> t \<in> {ThreadsHigh, ThreadsNormal}
                        \<and> a = (if source = ''model'' then ModelAnomaly
                               else if source = ''random'' then RandomRisk
                               else NormalBehaviour)))"
proof -
  let ?X = "map features processes"
  let ?rs = "map (\<lambda>(i, p). detect_one random_rate (predict model ?X ! i)
                    (decision_function model ?X ! i) (draws i) p) (enumerate 0 processes)"
  have res: "snd (anomaly_detect model random_rate draws processes) = Inr ?rs"
    using assms by (simp add: anomaly_detect_def Let_def)
  have len: "length ?rs = length processes" by simp
  have elt: "?rs ! i = detect_one random_rate (predict model ?X ! i)
               (decision_function model ?X ! i) (draws i) (processes ! i)"
    if "i < length processes" for i
    using that by (simp add: nth_enumerate_eq)
  have one: "let source = anomaly_source (pred = - 1) (draw < random_rate);
                 r = detect_one random_rate pred sc draw p
             in source \<in> {''model'', ''random'', ''normal''}
              \<and> (source = ''model'' \<longrightarrow> d_anomaly r)
              \<and> (source = ''normal'' \<longleftrightarrow> \<not> d_anomaly r)
              \<and> reasons r \<noteq> []
              \<and> (\<exists>c m t a. reasons r = [c, m, t, a]
                    \<and> c \<in> {CpuHigh, CpuElevated, CpuNormal}
                    \<and> m \<in> {MemoryHigh, MemoryNormal}
                    \<and> t \<in> {ThreadsHigh, ThreadsNormal}
                    \<and> a = (if source = ''model'' then ModelAnomaly
                           else if source = ''random'' then RandomRisk
                           else NormalBehaviour))"
    for pred draw sc p
    by (simp add: detect_one_def anomaly_source_def explain_def Let_def)
  show ?thesis
    using res len elt one by (intro exI [of _ ?rs]) (simp add: Let_def)
qed

theorem detect_source_and_reasons_witness:
  "length [busy_process, quiet_process, quiet_process]
     \<le> length (predict first_only (map features [busy_process, quiet_process, quiet_process]))
   \<and> length [busy_process, quiet_process, quiet_process]
     \<le> length (decision_function first_only
                 (map features [busy_process, quiet_process, quiet_process]))
   \<and> (\<exists>rs. snd (anomaly_detect first_only (3 / 100) second_draw_low
                     [busy_process, quiet_process, quiet_process]) = Inr rs
          \<and> map d_anomaly rs = [True, True, False]
          \<and> map reasons rs =
                [[CpuHigh, MemoryHigh, ThreadsHigh, ModelAnomaly],
                 [CpuNormal, MemoryNormal, ThreadsNormal, RandomRisk],
                 [CpuNormal, MemoryNormal, ThreadsNormal, NormalBehaviour]])"
proof -
  let ?ps = "[busy_process, quiet_process, quiet_process]"
  have h1: "length ?ps \<le> length (predict first_only (map features ?ps))"
    by (simp add: first_only_def)
  have h2: "length ?ps \<le> length (decision_function first_only (map features ?ps))"
    by (simp add: first_only_def)
  have ev: "map d_anomaly rs = [True, True, False] \<and>
            map reasons rs =
              [[CpuHigh, MemoryHigh, ThreadsHigh, ModelAnomaly],
               [CpuNormal, MemoryNormal, ThreadsNormal, RandomRisk],
               [CpuNormal, MemoryNormal, ThreadsNormal, NormalBehaviour]]"
    if "snd (anomaly_detect first_only (3 / 100) second_draw_low ?ps) = Inr rs" for rs
    using that
    by (auto simp: anomaly_detect_def first_only_def second_draw_low_def detect_one_def
          explain_def anomaly_source_def busy_process_def quiet_process_def Let_def)
  show ?thesis
    using h1 h2 ev detect_source_and_reasons [OF h1 h2, of "3 / 100" second_draw_low]
    by blast
qed



section \<open>The label store\<close>

lemma dict_lookup_dict_set_same: "dict_lookup (dict_set d k v) k = Some v"
  by (induction d) auto

lemma dict_lookup_dict_del_same: "dict_lookup (dict_del d k) k = None"
  by (induction d) (auto simp: dict_del_def)

lemma keys_dict_del: "k \<notin> fst ` set (dict_del d k)"
  by (auto simp: dict_del_def)

lemma set_dict_del: "set (dict_del d k) \<subseteq> set d"
  by (auto simp: dict_del_def)

lemma labels_db_save_labels: "labels_db (save_labels to_list now lm) = labels_db lm"
  by (simp add: save_labels_def)

lemma get_process_labels_save:
  "get_process_labels (save_labels to_list now lm) p = get_process_labels lm p"
  by (simp add: get_process_labels_def labels_db_save_labels)

text \<open>
  C6. After \<open>add_label\<close> of a tag to a pid, \<open>get_process_labels\<close> of that pid
  holds the tag. When the tag is the only tag of the pid, \<open>remove_label\<close>
  succeeds, and afterwards \<open>get_process_labels\<close> of the pid is empty, the pid
  is no key of the store, and \<open>search_by_tag\<close> finds it under no tag.
\<close>

theorem add_get_remove_labels:
  "snd (add_label to_list now saved_at lm p label note)
   \<and> label \<in> get_process_labels (fst (add_label to_list now saved_at lm p label note)) p
   \<and> (get_process_labels lm p = {label} \<longrightarrow>
        snd (remove_label to_list now saved_at lm p label)
        \<and> get_process_labels (fst (remove_label to_list now saved_at lm p label)) p = {}
        \<and> p \<notin> set (keys (labels_db (fst (remove_label to_list now saved_at lm p label))))
        \<and> (\<forall>t. p \<notin> set (search_by_tag (fst (remove_label to_list now saved_at lm p label)) t)))"
proof -
  have add: "label \<in> get_process_labels (fst (add_label to_list now saved_at lm p label note)) p"
    by (simp add: add_label_def Let_def get_process_labels_save)
       (simp add: get_process_labels_def dict_lookup_dict_set_same split: option.splits)
  have ok: "snd (add_label to_list now saved_at lm p label note)"
    by (simp add: add_label_def Let_def)
  have rem: "snd (remove_label to_list now saved_at lm p label)
        \<and> get_process_labels (fst (remove_label to_list now saved_at lm p label)) p = {}
        \<and> p \<notin> set (keys (labels_db (fst (remove_label to_list now saved_at lm p label))))
        \<and> (\<forall>t. p \<notin> set (search_by_tag (fst (remove_label to_list now saved_at lm p label)) t))"
    if only: "get_process_labels lm p = {label}"
  proof -
    obtain info where info: "dict_lookup (labels_db lm) p = Some info" "label_tags info = {label}"
      using only by (auto simp: get_process_labels_def split: option.splits)
    have r: "remove_label to_list now saved_at lm p label
               = (save_labels to_list saved_at (lm\<lparr>labels_db := dict_del (labels_db lm) p\<rparr>), True)"
      using info by (simp add: remove_label_def Let_def)
    have nk: "p \<notin> fst ` set (dict_del (labels_db lm) p)" by (rule keys_dict_del)
    have "\<forall>t. p \<notin> set (search_by_tag (save_labels to_list saved_at
                  (lm\<lparr>labels_db := dict_del (labels_db lm) p\<rparr>)) t)"
      using nk by (auto simp: search_by_tag_def labels_db_save_labels)
    then show ?thesis
      using nk unfolding r
      by (simp add: get_process_labels_save get_process_labels_def dict_lookup_dict_del_same
            labels_db_save_labels keys_def)
  qed
  show ?thesis using add ok rem by blast
qed

theorem add_get_remove_labels_witness:
  "get_process_labels example_store 0 = {''high_priority''}
   \<and> ''experimental''
        \<in> get_process_labels
            (fst (add_label catalog_order ''t1'' ''t2'' example_store 0 ''experimental'' None)) 0
   \<and> snd (remove_label catalog_order ''t1'' ''t2'' example_store 0 ''high_priority'')
   \<and> get_process_labels
         (fst (remove_label catalog_order ''t1'' ''t2'' example_store 0 ''high_priority'')) 0 = {}
   \<and> 0 \<notin> set (keys (labels_db
         (fst (remove_label catalog_order ''t1'' ''t2'' example_store 0 ''high_priority''))))
   \<and> (\<forall>t. 0 \<notin> set (search_by_tag
         (fst (remove_label catalog_order ''t1'' ''t2'' example_store 0 ''high_priority'')) t))"
proof -
  have h: "get_process_labels example_store 0 = {''high_priority''}"
    by (simp add: get_process_labels_def example_store_def)
  show ?thesis
    using h
      add_get_remove_labels [of catalog_order "''t1''" "''t2''" example_store 0
        "''experimental''" None]
      add_get_remove_labels [of catalog_order "''t1''" "''t2''" example_store 0
        "''high_priority''" None]
    by blast
qed

text \<open>
  C7. If every key of the store has a non-empty tag set, the same holds after
  \<open>add_label\<close>, after \<open>remove_label\<close> and after \<open>add_tag_definition\<close>; and a
  \<open>remove_label\<close> that takes the last tag of a pid deletes the pid from the
  store.
\<close>

theorem store_inv_preserved:
  assumes "store_inv lm"
  shows "store_inv (fst (add_label to_list now saved_at lm p label note))
       \<and> store_inv (fst (remove_label to_list now saved_at lm p label))
       \<and> store_inv (add_tag_definition lm t col descr)
       \<and> (\<forall>info. dict_lookup (labels_db lm) p = Some info \<and> label \<in> label_tags info
                  \<and> label_tags info - {label} = {}
             \<longrightarrow> p \<notin> set (keys (labels_db (fst (remove_label to_list now saved_at lm p label)))))"
proof -
  have inv: "\<forall>(q, i) \<in> set (labels_db lm). label_tags i \<noteq> {}"
    using assms by (simp add: store_inv_def)
  have set_ok: "\<forall>(q, i) \<in> set (dict_set (labels_db lm) p v). label_tags i \<noteq> {}"
    if "label_tags v \<noteq> {}" for v
    using set_dict_set [of "labels_db lm" p v] inv that by auto
  have a: "store_inv (fst (add_label to_list now saved_at lm p label note))"
    unfolding store_inv_def add_label_def Let_def fst_conv labels_db_save_labels
    by (simp, intro set_ok) (simp split: option.splits)
  have del_ok: "\<forall>(q, i) \<in> set (dict_del (labels_db lm) p). label_tags i \<noteq> {}"
    using set_dict_del [of "labels_db lm" p] inv by auto
  have b: "store_inv (fst (remove_label to_list now saved_at lm p label))"
  proof (cases "dict_lookup (labels_db lm) p")
    case None
    then show ?thesis using assms by (simp add: remove_label_def)
  next
    case (Some info)
    show ?thesis
    proof (cases "label \<in> label_tags info")
      case False
      then show ?thesis using assms Some by (simp add: remove_label_def)
    next
      case True
      show ?thesis
      proof (cases "label_tags info - {label} = {}")
        case e: True
        then show ?thesis
          using Some True del_ok
          by (simp add: remove_label_def Let_def store_inv_def labels_db_save_labels)
      next
        case ne: False
        have "\<forall>(q, i) \<in> set (dict_set (labels_db lm) p
                 (info\<lparr>label_tags := label_tags info - {label}, last_updated := now\<rparr>)).
                label_tags i \<noteq> {}"
          using ne by (intro set_ok) simp
        then show ?thesis
          using Some True ne
          by (simp add: remove_label_def Let_def store_inv_def labels_db_save_labels)
      qed
    qed
  qed
  have c: "store_inv (add_tag_definition lm t col descr)"
    using assms by (simp add: store_inv_def add_tag_definition_def)
  have d: "p \<notin> set (keys (labels_db (fst (remove_label to_list now saved_at lm p label))))"
    if "dict_lookup (labels_db lm) p = Some info" "label \<in> label_tags info"
       "label_tags info - {label} = {}" for info
    using that keys_dict_del [of p "labels_db lm"]
    by (simp add: remove_label_def Let_def labels_db_save_labels keys_def)
  show ?thesis using a b c d by blast
qed

theorem store_inv_preserved_witness:
  "store_inv example_store
   \<and> store_inv (fst (add_label catalog_order ''t1'' ''t2'' example_store 0 ''high_priority''
                       None))
   \<and> store_inv (fst (remove_label catalog_order ''t1'' ''t2'' example_store 0
                       ''high_priority''))
   \<and> 0 \<notin> set (keys (labels_db
         (fst (remove_label catalog_order ''t1'' ''t2'' example_store 0 ''high_priority''))))"
proof -
  have h: "store_inv example_store"
    by (simp add: store_inv_def example_store_def)
  have l: "dict_lookup (labels_db example_store) 0
             = Some \<lparr>label_tags = {''high_priority''}, label_notes = ''swapper'',
                     last_updated = ''2024-05-01T10:00:00''\<rparr>"
    by (simp add: example_store_def)
  show ?thesis
    using h l
      store_inv_preserved [OF h, of catalog_order "''t1''" "''t2''" 0 "''high_priority''"]
    by simp
qed

subsection \<open>Saving and loading\<close>














text \<open>
  C10. \<open>merge_with_classification\<close> keeps every result in place and decides by
  the truth value of its pid: a pid that is 0, missing or the empty string gets
  no manual labels and the flag \<open>False\<close>, whatever the store holds for it; any
  other pid gets the labels the store has for it.
\<close>

theorem merge_falsy_pid:
  "length (merge_with_classification to_list lm results) = length results
   \<and> (\<forall>i < length results.
         let result = results ! i; m = merge_with_classification to_list lm results ! i
         in classified.truncate m = result
          \<and> (\<not> truthy (result_pid result) \<longrightarrow> manual_labels m = [] \<and> \<not> has_manual_labels m)
          \<and> (truthy (result_pid result) \<longrightarrow>
                manual_labels m = to_list (labels_of_pid lm (result_pid result))
                \<and> has_manual_labels m = (labels_of_pid lm (result_pid result) \<noteq> {})))
   \<and> \<not> truthy (PidInt 0) \<and> \<not> truthy PidNone \<and> \<not> truthy (PidStr [])"
  by (simp add: merge_with_classification_def merge_one_def Let_def classified.truncate_def
        classified.extend_def)

theorem merge_falsy_pid_witness:
  "get_process_labels example_store 0 = {''high_priority''}
   \<and> result_pid pid0_result = PidInt 0
   \<and> manual_labels (merge_with_classification catalog_order example_store [pid0_result] ! 0)
       = []
   \<and> \<not> has_manual_labels
         (merge_with_classification catalog_order example_store [pid0_result] ! 0)"
proof -
  have h: "get_process_labels example_store 0 = {''high_priority''}"
    by (simp add: get_process_labels_def example_store_def)
  have q: "result_pid pid0_result = PidInt 0"
    by (simp add: pid0_result_def with_pid_def classification.extend_def)
  show ?thesis
    using h q merge_falsy_pid [of catalog_order example_store "[pid0_result]"]
    by (simp add: Let_def)
qed

section \<open>The priority of a process\<close>

lemma calculate_priority_range: "5 \<le> calculate_priority info \<and> calculate_priority info \<le> 9"
  by (simp add: calculate_priority_def Let_def)

lemma calculate_priority_high:
  "''high_priority'' \<in> set ls \<Longrightarrow> calculate_priority (info\<lparr>user_labels := Some ls\<rparr>) = 9"
  by (simp add: calculate_priority_def Let_def)

text \<open>
  C9. The priority does not decrease when \<open>high_priority\<close> is added to the
  labels, when the cpu usage is set to a value above 80, or when the category is
  set to \<open>system_critical\<close>, everything else unchanged; and it is never above
  10.
\<close>

theorem priority_monotone:
  assumes "set ls = insert ''high_priority'' (set (labels_list info))" and "80 < c"
  shows "calculate_priority info \<le> calculate_priority (info\<lparr>user_labels := Some ls\<rparr>)
       \<and> calculate_priority info \<le> calculate_priority (info\<lparr>info_cpu_usage := Some c\<rparr>)
       \<and> calculate_priority info
            \<le> calculate_priority (info\<lparr>info_category := Some ''system_critical''\<rparr>)
       \<and> calculate_priority info \<le> 10"
proof -
  have "''high_priority'' \<in> set ls" using assms(1) by simp
  then have a: "calculate_priority info \<le> calculate_priority (info\<lparr>user_labels := Some ls\<rparr>)"
    using calculate_priority_range [of info] by (simp add: calculate_priority_high)
  have b: "calculate_priority info \<le> calculate_priority (info\<lparr>info_cpu_usage := Some c\<rparr>)"
    using assms(2) by (simp add: calculate_priority_def Let_def)
  have c: "calculate_priority info
             \<le> calculate_priority (info\<lparr>info_category := Some ''system_critical''\<rparr>)"
    by (simp add: calculate_priority_def Let_def)
  show ?thesis using a b c calculate_priority_range [of info] by simp
qed

theorem priority_monotone_witness:
  "set [''business_critical'', ''high_priority'']
     = insert ''high_priority'' (set (labels_list tagged_info)) \<and> (80::real) < 95
   \<and> calculate_priority tagged_info
        \<le> calculate_priority (tagged_info\<lparr>user_labels := Some [''business_critical'', ''high_priority'']\<rparr>)
   \<and> calculate_priority tagged_info \<le> calculate_priority (tagged_info\<lparr>info_cpu_usage := Some 95\<rparr>)
   \<and> calculate_priority tagged_info
        \<le> calculate_priority (tagged_info\<lparr>info_category := Some ''system_critical''\<rparr>)
   \<and> calculate_priority tagged_info \<le> 10"
proof -
  have h1: "set [''business_critical'', ''high_priority'']
              = insert ''high_priority'' (set (labels_list tagged_info))"
    by (auto simp: labels_list_def tagged_info_def)
  have h2: "(80::real) < 95" by simp
  show ?thesis using h1 h2 priority_monotone [OF h1 h2] by blast
qed

end
